theory Spec2Isabelle
  imports Main
begin

section \<open>Values of the host language\<close>

text \<open>
  A thrown value. \<open>JsError msg\<close> is the object built by \<^verbatim>\<open>new Error(msg)\<close>;
  \<open>JsValue s\<close> is any other thrown value whose string conversion yields the text \<open>s\<close>;
  \<open>JsUnprintable e\<close> is a thrown value whose string conversion itself throws \<open>e\<close> (a
  symbol, an object whose \<^verbatim>\<open>toString\<close> throws).
  An \<^verbatim>\<open>async\<close> function that throws is a rejected promise, one that returns is a
  resolved one: both are the two sides of a sum, \<open>Inl\<close> the rejection.
\<close>

datatype js_exn = JsError string | JsValue string | JsUnprintable js_exn

text \<open>
  String conversion of a thrown value inside a template literal. An error object with an
  empty message converts to its name alone.
\<close>

fun exn_to_string :: "js_exn \<Rightarrow> js_exn + string" where
  "exn_to_string (JsError msg) = Inr (if msg = [] then ''Error'' else ''Error: '' @ msg)"
| "exn_to_string (JsValue s) = Inr s"
| "exn_to_string (JsUnprintable e) = Inl e"

text \<open>
  A promise as its holder finds it once settled, and the two ways a call of a method can
  end: by throwing in the caller's turn, or by returning a promise. An \<^verbatim>\<open>async\<close>
  method always ends the second way; its failure is the rejection of that promise.
\<close>

datatype settled = Fulfilled | Rejected js_exn

datatype call_outcome = Throws js_exn | Returns settled

text \<open>\<^verbatim>\<open>s.includes(sub)\<close>: \<open>sub\<close> occurs in \<open>s\<close> as a contiguous run.\<close>

fun starts_with :: "string \<Rightarrow> string \<Rightarrow> bool" where
  "starts_with s [] = True"
| "starts_with [] (c # cs) = False"
| "starts_with (x # xs) (c # cs) = (x = c \<and> starts_with xs cs)"

fun includes_str :: "string \<Rightarrow> string \<Rightarrow> bool" where
  "includes_str [] sub = (sub = [])"
| "includes_str (x # xs) sub = (starts_with (x # xs) sub \<or> includes_str xs sub)"

text \<open>
  Truthiness of an optional string argument (\<^verbatim>\<open>if (schoolIds)\<close>): \<^verbatim>\<open>undefined\<close>
  and the empty string are both falsy.
\<close>

fun truthy :: "string option \<Rightarrow> bool" where
  "truthy None = False"
| "truthy (Some s) = (s \<noteq> [])"

section \<open>The schedule tool\<close>

text \<open>
  The argument \<^verbatim>\<open>when\<close> is an object with a \<^verbatim>\<open>type\<close> tag and, depending on the tag, one
  of the fields \<^verbatim>\<open>date\<close>, \<^verbatim>\<open>delayInSeconds\<close>, \<^verbatim>\<open>cron\<close>. Its schema is declared by
  an external library; the resolver reads the tag as a string and then the field, so the
  model keeps the object as a record whose absent fields are \<open>None\<close> (\<^verbatim>\<open>undefined\<close>).
  The schema hands over \<^verbatim>\<open>date\<close> as a date object and \<^verbatim>\<open>delayInSeconds\<close> as a number:
  values of the host's types, here the type parameters \<open>'d\<close> and \<open>'n\<close>. What a template
  literal prints for them is the host's business (\<^verbatim>\<open>Date.prototype.toString\<close>,
  \<^verbatim>\<open>Number.prototype.toString\<close>) and is passed to the resolver as \<open>date_toString\<close> and
  \<open>number_toString\<close>.
\<close>

record ('d, 'n) schedule_when =
  type :: string
  date :: "'d option"
  delayInSeconds :: "'n option"
  cron :: "string option"

text \<open>The first argument handed to the agent's scheduling entry point.\<close>

datatype ('d, 'n) trigger_value = DateValue 'd | NumberValue 'n | StringValue string

text \<open>String conversion of the (possibly undefined) trigger value in a template literal.\<close>

fun input_to_string ::
  "('d \<Rightarrow> string) \<Rightarrow> ('n \<Rightarrow> string) \<Rightarrow> ('d, 'n) trigger_value option \<Rightarrow> string" where
  "input_to_string date_toString number_toString None = ''undefined''"
| "input_to_string date_toString number_toString (Some (DateValue d)) = date_toString d"
| "input_to_string date_toString number_toString (Some (NumberValue n)) = number_toString n"
| "input_to_string date_toString number_toString (Some (StringValue s)) = s"

text \<open>
  The agent context found in the async-local store. Its \<^verbatim>\<open>schedule\<close> method belongs to
  an external collaborator: all the resolver sees is how a call ends.
\<close>

record ('d, 'n) agent =
  schedule :: "('d, 'n) trigger_value option \<Rightarrow> string \<Rightarrow> string \<Rightarrow> call_outcome"

text \<open>One recorded call \<^verbatim>\<open>agent.schedule(input, action, description)\<close>.\<close>

datatype ('d, 'n) schedule_call = ScheduleCall "('d, 'n) trigger_value option" string string

text \<open>
  \<^verbatim>\<open>scheduleTask.execute\<close>. The third argument is the result of
  \<^verbatim>\<open>agentContext.getStore()\<close>. The result has three parts: the settled promise of the
  resolver; the calls made to \<^verbatim>\<open>agent.schedule\<close>, in order; and the promises those calls
  returned, which the resolver neither awaits nor keeps (the call stands in the
  \<^verbatim>\<open>try\<close> block without \<^verbatim>\<open>await\<close>, so the \<^verbatim>\<open>catch\<close> sees only a call that throws).
  Console output is not modelled.
\<close>

definition throwError :: "string \<Rightarrow> js_exn + 'a" where
  "throwError msg = Inl (JsError msg)"

definition schedule_input ::
  "('d, 'n) schedule_when \<Rightarrow> js_exn + ('d, 'n) trigger_value option" where
  "schedule_input when =
     (if type when = ''scheduled'' then Inr (map_option DateValue (date when))
      else if type when = ''delayed'' then Inr (map_option NumberValue (delayInSeconds when))
      else if type when = ''cron'' then Inr (map_option StringValue (cron when))
      else throwError ''not a valid schedule input'')"

definition scheduleTask_execute ::
  "('d \<Rightarrow> string) \<Rightarrow> ('n \<Rightarrow> string) \<Rightarrow> ('d, 'n) agent option \<Rightarrow> ('d, 'n) schedule_when \<Rightarrow>
   string \<Rightarrow> (js_exn + string) \<times> ('d, 'n) schedule_call list \<times> settled list" where
  "scheduleTask_execute date_toString number_toString store when description =
     (case store of
        None \<Rightarrow> (Inl (JsError ''No agent found''), [], [])
      | Some ag \<Rightarrow>
          if type when = ''no-schedule'' then (Inr ''Not a valid schedule input'', [], [])
          else
            (case schedule_input when of
               Inl e \<Rightarrow> (Inl e, [], [])
             | Inr input \<Rightarrow>
                 (case schedule ag input ''executeTask'' description of
                    Throws error \<Rightarrow>
                      ((case exn_to_string error of
                          Inl e \<Rightarrow> Inl e
                        | Inr shown \<Rightarrow> Inr (''Error scheduling task: '' @ shown)),
                       [ScheduleCall input ''executeTask'' description], [])
                  | Returns promise \<Rightarrow>
                      (Inr (''Task scheduled for type \"'' @ type when @ ''\" : ''
                            @ input_to_string date_toString number_toString input),
                       [ScheduleCall input ''executeTask'' description], [promise]))))"

section \<open>The domain-record tools\<close>

text \<open>
  The HTTP client \<^verbatim>\<open>bambaiApiClient\<close> is an external collaborator: a call
  \<^verbatim>\<open>get(url, { headers })\<close> either rejects (\<open>Inl\<close>) or resolves to a response, of
  which the tools read only \<^verbatim>\<open>res.data\<close> (\<open>Inr\<close>). The response bodies are decoded
  JSON values of some type \<open>'j\<close>, on which \<^verbatim>\<open>JSON.stringify\<close> is a total function; it
  is passed to each tool as \<open>stringify\<close>.
\<close>

record 'j api_client =
  get :: "string \<Rightarrow> (string \<times> string) list \<Rightarrow> js_exn + 'j"

definition AUTH_HEADER :: "(string \<times> string) list" where
  "AUTH_HEADER = [(''x-access-token'', [])]"

definition getLocalTime_execute :: "string \<Rightarrow> js_exn + string" where
  "getLocalTime_execute location = Inr ''10am''"

definition getUserPersonalData_execute ::
  "'j api_client \<Rightarrow> ('j \<Rightarrow> string) \<Rightarrow> js_exn + string" where
  "getUserPersonalData_execute bambaiApiClient stringify =
     (let headers = AUTH_HEADER in
      case get bambaiApiClient ''me'' headers of
        Inr data \<Rightarrow> Inr (stringify data)
      | Inl error \<Rightarrow> Inr ''error'')"

definition getSchools_execute ::
  "'j api_client \<Rightarrow> ('j \<Rightarrow> string) \<Rightarrow> js_exn + string" where
  "getSchools_execute bambaiApiClient stringify =
     (let headers = AUTH_HEADER in
      case get bambaiApiClient ''schools?page=0&perPage=30'' headers of
        Inr data \<Rightarrow> Inr (stringify data)
      | Inl error \<Rightarrow> Inr ''error'')"

definition getClasses_execute ::
  "'j api_client \<Rightarrow> ('j \<Rightarrow> string) \<Rightarrow> js_exn + string" where
  "getClasses_execute bambaiApiClient stringify =
     (let headers = AUTH_HEADER in
      case get bambaiApiClient ''classes'' headers of
        Inr data \<Rightarrow> Inr (stringify data)
      | Inl error \<Rightarrow> Inr ''error'')"

definition getSubjects_execute ::
  "'j api_client \<Rightarrow> ('j \<Rightarrow> string) \<Rightarrow> js_exn + string" where
  "getSubjects_execute bambaiApiClient stringify =
     (let headers = AUTH_HEADER in
      case get bambaiApiClient ''subjects'' headers of
        Inr data \<Rightarrow> Inr (stringify data)
      | Inl error \<Rightarrow> Inr ''error'')"

text \<open>
  The request path of \<^verbatim>\<open>getStudents\<close>: the statements between \<^verbatim>\<open>let url\<close> and the
  \<^verbatim>\<open>try\<close> block. Both arguments are optional strings.
\<close>

definition getStudents_url :: "string option \<Rightarrow> string option \<Rightarrow> string" where
  "getStudents_url schoolIds classIds =
     (let url = ''active-students'';
          url = (if truthy schoolIds then url @ ''?schoolIds='' @ the schoolIds else url);
          url = (if truthy classIds then
                   (if includes_str url ''?'' then url @ ''&classIds='' @ the classIds
                    else url @ ''?classIds='' @ the classIds)
                 else url)
      in url)"

definition getStudents_execute ::
  "'j api_client \<Rightarrow> ('j \<Rightarrow> string) \<Rightarrow> string option \<Rightarrow> string option \<Rightarrow> js_exn + string" where
  "getStudents_execute bambaiApiClient stringify schoolIds classIds =
     (let headers = AUTH_HEADER;
          url = getStudents_url schoolIds classIds in
      case get bambaiApiClient url headers of
        Inr data \<Rightarrow> Inr (stringify data)
      | Inl error \<Rightarrow> Inr ''error'')"

text \<open>
  The request path of \<^verbatim>\<open>searchStudent\<close>. \<^verbatim>\<open>encodeURIComponent\<close> is a builtin, passed
  as a parameter; it throws on a malformed string (\<open>Inl\<close>), and the call stands before the
  \<^verbatim>\<open>try\<close> block, so its exception leaves the tool.
\<close>

definition searchStudent_url ::
  "(string \<Rightarrow> js_exn + string) \<Rightarrow> string \<Rightarrow> string option \<Rightarrow> js_exn + string" where
  "searchStudent_url encodeURIComponent name schoolIds =
     (case encodeURIComponent name of
        Inl e \<Rightarrow> Inl e
      | Inr encoded \<Rightarrow>
          (let url = ''/students/typeahead?searchText='' @ encoded;
               url = (if truthy schoolIds then url @ ''?schoolIds='' @ the schoolIds else url)
           in Inr url))"

definition searchStudent_execute ::
  "'j api_client \<Rightarrow> ('j \<Rightarrow> string) \<Rightarrow> (string \<Rightarrow> js_exn + string) \<Rightarrow>
   string \<Rightarrow> string option \<Rightarrow> js_exn + string" where
  "searchStudent_execute bambaiApiClient stringify encodeURIComponent name schoolIds =
     (let headers = AUTH_HEADER in
      case searchStudent_url encodeURIComponent name schoolIds of
        Inl e \<Rightarrow> Inl e
      | Inr url \<Rightarrow>
          (case get bambaiApiClient url headers of
             Inr data \<Rightarrow> Inr (stringify data)
           | Inl error \<Rightarrow> Inr ''error''))"

definition getStudent_execute ::
  "'j api_client \<Rightarrow> ('j \<Rightarrow> string) \<Rightarrow> string \<Rightarrow> js_exn + string" where
  "getStudent_execute bambaiApiClient stringify studentId =
     (let headers = AUTH_HEADER;
          url = ''student/'' @ studentId in
      case get bambaiApiClient url headers of
        Inr data \<Rightarrow> Inr (stringify data)
      | Inl error \<Rightarrow> Inr ''error'')"

section \<open>The registry and the confirmation executions\<close>

text \<open>
  A validated argument object, as the list of its string fields. Reading a field that is
  absent gives \<^verbatim>\<open>undefined\<close>, which a template literal renders as that word.
\<close>

type_synonym arguments = "(string \<times> string) list"

definition field_text :: "arguments \<Rightarrow> string \<Rightarrow> string" where
  "field_text args k = (case map_of args k of None \<Rightarrow> ''undefined'' | Some v \<Rightarrow> v)"

text \<open>
  The inline \<^verbatim>\<open>execute\<close> of a descriptor, named by a tag: each tag stands for the
  function of the same name defined above. The description and the parameter schema of a
  descriptor play no part in dispatch and are left out.
\<close>

datatype inline_execute =
    Execute_getLocalTime
  | Execute_scheduleTask
  | Execute_getUserPersonalData
  | Execute_getSchools
  | Execute_getClasses
  | Execute_getSubjects
  | Execute_getStudents
  | Execute_searchStudent
  | Execute_getStudent

record tool =
  execute :: "inline_execute option"

definition getWeatherInformation :: tool where
  "getWeatherInformation = \<lparr>execute = None\<rparr>"

definition getLocalTime :: tool where
  "getLocalTime = \<lparr>execute = Some Execute_getLocalTime\<rparr>"

definition scheduleTask :: tool where
  "scheduleTask = \<lparr>execute = Some Execute_scheduleTask\<rparr>"

definition getUserPersonalData :: tool where
  "getUserPersonalData = \<lparr>execute = Some Execute_getUserPersonalData\<rparr>"

definition getSchools :: tool where
  "getSchools = \<lparr>execute = Some Execute_getSchools\<rparr>"

definition getClasses :: tool where
  "getClasses = \<lparr>execute = Some Execute_getClasses\<rparr>"

definition getSubjects :: tool where
  "getSubjects = \<lparr>execute = Some Execute_getSubjects\<rparr>"

definition getStudents :: tool where
  "getStudents = \<lparr>execute = Some Execute_getStudents\<rparr>"

definition searchStudent :: tool where
  "searchStudent = \<lparr>execute = Some Execute_searchStudent\<rparr>"

definition getStudent :: tool where
  "getStudent = \<lparr>execute = Some Execute_getStudent\<rparr>"

text \<open>The exported object \<^verbatim>\<open>tools\<close>, as the list of its properties in source order.\<close>

definition tools :: "(string \<times> tool) list" where
  "tools =
     [(''getUserPersonalData'', getUserPersonalData),
      (''getWeatherInformation'', getWeatherInformation),
      (''getLocalTime'', getLocalTime),
      (''scheduleTask'', scheduleTask),
      (''getClasses'', getClasses),
      (''getSubjects'', getSubjects),
      (''getSchools'', getSchools),
      (''getStudents'', getStudents),
      (''searchStudent'', searchStudent),
      (''getStudent'', getStudent)]"

text \<open>The exported object \<^verbatim>\<open>executions\<close>; its one function destructures \<^verbatim>\<open>city\<close>.\<close>

definition executions :: "(string \<times> (arguments \<Rightarrow> js_exn + string)) list" where
  "executions =
     [(''getWeatherInformation'',
       \<lambda>args. Inr (''The weather in '' @ field_text args ''city'' @ '' is sunny''))]"

section \<open>The confirmation gate\<close>

text \<open>
  Modelled from the spec: the confirmation gate (\<^verbatim>\<open>dispatch\<close>, \<^verbatim>\<open>resolve\<close> and the
  store of pending confirmations) is not among the source files at hand; only the table
  \<^verbatim>\<open>executions\<close> it routes to is. The definitions of this section follow the spec's
  component design: a pending confirmation holds the tool name, the validated arguments
  and its creation time; an approved one is looked up in the executor table by tool name
  and run on the stored arguments, a missing entry being a \<open>MissingExecutorError\<close>; a
  denied one gives the rejection result and runs nothing; an id is resolved at most once,
  a further attempt being an \<open>AlreadyResolvedError\<close>. The spec names no outcome for an
  id that was never issued: the model answers \<open>UnknownPendingId\<close> and leaves the state
  as it is.
\<close>

datatype decision = Approve | Deny

datatype gate_error =
    MissingExecutorError
  | AlreadyResolvedError
  | UnknownPendingId
  | ExecutorFailure js_exn

datatype gate_result = ToolResult string | Rejection

record pending_confirmation =
  toolName :: string
  validatedArguments :: arguments
  createdAt :: nat

datatype slot = Pending pending_confirmation | Resolved

record gate_state =
  slots :: "nat \<rightharpoonup> slot"
  next_id :: nat

definition initial_gate :: gate_state where
  "initial_gate = \<lparr>slots = Map.empty, next_id = 0\<rparr>"

datatype dispatch_result = Immediate "js_exn + string" | Deferred nat

text \<open>
  Modelled from the spec: \<^verbatim>\<open>dispatch\<close>. \<open>inline\<close> gives the inline executor of a tool
  name, if its descriptor carries one; a deferred call is stored under a fresh id.
\<close>

definition dispatch ::
  "(string \<rightharpoonup> (arguments \<Rightarrow> js_exn + string)) \<Rightarrow> string \<Rightarrow> arguments \<Rightarrow> nat \<Rightarrow>
   gate_state \<Rightarrow> dispatch_result \<times> gate_state" where
  "dispatch inline tn args now st =
     (case inline tn of
        Some f \<Rightarrow> (Immediate (f args), st)
      | None \<Rightarrow>
          (Deferred (next_id st),
           st\<lparr>slots := (slots st)(next_id st \<mapsto>
                  Pending \<lparr>toolName = tn, validatedArguments = args, createdAt = now\<rparr>),
              next_id := Suc (next_id st)\<rparr>))"

text \<open>Modelled from the spec: the result of an approved or denied pending confirmation.\<close>

definition run_decision ::
  "(string \<times> (arguments \<Rightarrow> js_exn + string)) list \<Rightarrow> pending_confirmation \<Rightarrow> decision \<Rightarrow>
   gate_error + gate_result" where
  "run_decision table pc d =
     (case d of
        Deny \<Rightarrow> Inr Rejection
      | Approve \<Rightarrow>
          (case map_of table (toolName pc) of
             None \<Rightarrow> Inl MissingExecutorError
           | Some f \<Rightarrow>
               (case f (validatedArguments pc) of
                  Inl e \<Rightarrow> Inl (ExecutorFailure e)
                | Inr s \<Rightarrow> Inr (ToolResult s))))"

text \<open>Modelled from the spec: \<^verbatim>\<open>resolve\<close>.\<close>

definition resolve ::
  "(string \<times> (arguments \<Rightarrow> js_exn + string)) list \<Rightarrow> nat \<Rightarrow> decision \<Rightarrow>
   gate_state \<Rightarrow> (gate_error + gate_result) \<times> gate_state" where
  "resolve table pendingId d st =
     (case slots st pendingId of
        None \<Rightarrow> (Inl UnknownPendingId, st)
      | Some Resolved \<Rightarrow> (Inl AlreadyResolvedError, st)
      | Some (Pending pc) \<Rightarrow>
          (run_decision table pc d, st\<lparr>slots := (slots st)(pendingId \<mapsto> Resolved)\<rparr>))"

text \<open>A history of gate operations, run from left to right.\<close>

datatype gate_op = Dispatch string arguments nat | Resolve nat decision

fun gate_step ::
  "(string \<rightharpoonup> (arguments \<Rightarrow> js_exn + string)) \<Rightarrow>
   (string \<times> (arguments \<Rightarrow> js_exn + string)) list \<Rightarrow> gate_op \<Rightarrow> gate_state \<Rightarrow> gate_state" where
  "gate_step inline table (Dispatch tn args now) st = snd (dispatch inline tn args now st)"
| "gate_step inline table (Resolve p d) st = snd (resolve table p d st)"

fun gate_run ::
  "(string \<rightharpoonup> (arguments \<Rightarrow> js_exn + string)) \<Rightarrow>
   (string \<times> (arguments \<Rightarrow> js_exn + string)) list \<Rightarrow> gate_op list \<Rightarrow> gate_state \<Rightarrow> gate_state" where
  "gate_run inline table [] st = st"
| "gate_run inline table (x # xs) st = gate_run inline table xs (gate_step inline table x st)"

text \<open>Ids are issued in increasing order: every stored id lies below the next one.\<close>

definition ids_issued :: "gate_state \<Rightarrow> bool" where
  "ids_issued st = (\<forall>p. slots st p \<noteq> None \<longrightarrow> p < next_id st)"


section \<open>Auxiliary facts\<close>

lemma starts_with_self: "starts_with s s"
  by (induction s) auto

lemma includes_str_self: "includes_str s s"
  by (cases s) (auto simp: starts_with_self)

lemma includes_str_append: "includes_str (p @ s) s"
  by (induction p) (auto simp: includes_str_self)

subsection \<open>Each domain-record tool, by the outcome of its request\<close>

lemma getUserPersonalData_outcome:
  "(get c ''me'' AUTH_HEADER = Inl e \<longrightarrow> getUserPersonalData_execute c s = Inr ''error'')
   \<and> (get c ''me'' AUTH_HEADER = Inr d \<longrightarrow> getUserPersonalData_execute c s = Inr (s d))"
  by (simp add: getUserPersonalData_execute_def)

lemma getSchools_outcome:
  "(get c ''schools?page=0&perPage=30'' AUTH_HEADER = Inl e \<longrightarrow>
      getSchools_execute c s = Inr ''error'')
   \<and> (get c ''schools?page=0&perPage=30'' AUTH_HEADER = Inr d \<longrightarrow>
      getSchools_execute c s = Inr (s d))"
  by (simp add: getSchools_execute_def)

lemma getClasses_outcome:
  "(get c ''classes'' AUTH_HEADER = Inl e \<longrightarrow> getClasses_execute c s = Inr ''error'')
   \<and> (get c ''classes'' AUTH_HEADER = Inr d \<longrightarrow> getClasses_execute c s = Inr (s d))"
  by (simp add: getClasses_execute_def)

lemma getSubjects_outcome:
  "(get c ''subjects'' AUTH_HEADER = Inl e \<longrightarrow> getSubjects_execute c s = Inr ''error'')
   \<and> (get c ''subjects'' AUTH_HEADER = Inr d \<longrightarrow> getSubjects_execute c s = Inr (s d))"
  by (simp add: getSubjects_execute_def)

lemma getStudents_outcome:
  "(get c (getStudents_url schoolIds classIds) AUTH_HEADER = Inl e \<longrightarrow>
      getStudents_execute c s schoolIds classIds = Inr ''error'')
   \<and> (get c (getStudents_url schoolIds classIds) AUTH_HEADER = Inr d \<longrightarrow>
      getStudents_execute c s schoolIds classIds = Inr (s d))"
  by (simp add: getStudents_execute_def)

lemma searchStudent_outcome:
  "searchStudent_url enc name ids = Inr url \<longrightarrow>
     (get c url AUTH_HEADER = Inl e \<longrightarrow>
        searchStudent_execute c s enc name ids = Inr ''error'')
     \<and> (get c url AUTH_HEADER = Inr d \<longrightarrow>
        searchStudent_execute c s enc name ids = Inr (s d))"
  by (simp add: searchStudent_execute_def)

lemma getStudent_outcome:
  "(get c (''student/'' @ studentId) AUTH_HEADER = Inl e \<longrightarrow>
      getStudent_execute c s studentId = Inr ''error'')
   \<and> (get c (''student/'' @ studentId) AUTH_HEADER = Inr d \<longrightarrow>
      getStudent_execute c s studentId = Inr (s d))"
  by (simp add: getStudent_execute_def)

subsection \<open>The gate keeps a resolved id resolved\<close>

lemma initial_ids_issued: "ids_issued initial_gate"
  by (simp add: ids_issued_def initial_gate_def)

lemma dispatch_ids_issued:
  "ids_issued st \<Longrightarrow> ids_issued (snd (dispatch inline tn args now st))"
  by (auto simp: ids_issued_def dispatch_def less_Suc_eq split: option.splits)

lemma resolve_ids_issued:
  "ids_issued st \<Longrightarrow> ids_issued (snd (resolve table p d st))"
  by (auto simp: ids_issued_def resolve_def split: option.splits slot.splits)

lemma gate_step_ids_issued:
  "ids_issued st \<Longrightarrow> ids_issued (gate_step inline table x st)"
  by (cases x) (simp_all add: dispatch_ids_issued resolve_ids_issued)

lemma gate_run_ids_issued:
  "ids_issued st \<Longrightarrow> ids_issued (gate_run inline table xs st)"
  by (induction xs arbitrary: st) (simp_all add: gate_step_ids_issued)

lemma gate_step_keeps_resolved:
  "ids_issued st \<Longrightarrow> slots st p = Some Resolved \<Longrightarrow>
     slots (gate_step inline table x st) p = Some Resolved"
  by (cases x)
     (auto simp: ids_issued_def dispatch_def resolve_def split: option.splits slot.splits)

lemma gate_run_keeps_resolved:
  "ids_issued st \<Longrightarrow> slots st p = Some Resolved \<Longrightarrow>
     slots (gate_run inline table xs st) p = Some Resolved"
proof (induction xs arbitrary: st)
  case Nil
  then show ?case by simp
next
  case (Cons x xs)
  have "ids_issued (gate_step inline table x st)"
    using Cons.prems(1) by (rule gate_step_ids_issued)
  moreover have "slots (gate_step inline table x st) p = Some Resolved"
    using Cons.prems by (rule gate_step_keeps_resolved)
  ultimately show ?case
    using Cons.IH by simp
qed

lemma resolve_pending:
  "slots st p = Some (Pending pc) \<Longrightarrow>
     fst (resolve table p d st) = run_decision table pc d
     \<and> slots (snd (resolve table p d st)) p = Some Resolved"
  by (simp add: resolve_def)

lemma resolve_resolved:
  "slots st p = Some Resolved \<Longrightarrow> resolve table p d st = (Inl AlreadyResolvedError, st)"
  by (simp add: resolve_def)

lemma run_decision_not_already_resolved:
  "run_decision table pc d \<noteq> Inl AlreadyResolvedError"
  by (simp add: run_decision_def split: decision.splits option.splits sum.splits)

section \<open>The registry invariant\<close>

text \<open>
  C1. For every tool of the exported registry, the descriptor carries an inline execute
  function if and only if the table of confirmation executions has no entry of the same
  name: no tool has both, and none has neither.
\<close>

theorem registry_execute_iff_no_execution:
  "(n, t) \<in> set tools \<Longrightarrow> (execute t \<noteq> None) = (map_of executions n = None)"
  by (auto simp: tools_def executions_def getWeatherInformation_def getLocalTime_def
      scheduleTask_def getUserPersonalData_def getSchools_def getClasses_def getSubjects_def
      getStudents_def searchStudent_def getStudent_def)

text \<open>The one confirmation-gated tool: no inline execute, and an entry in the table.\<close>

theorem registry_execute_iff_no_execution_witness:
  "(''getWeatherInformation'', getWeatherInformation) \<in> set tools
   \<and> execute getWeatherInformation = None
   \<and> map_of executions ''getWeatherInformation'' \<noteq> None"
proof -
  have h: "(''getWeatherInformation'', getWeatherInformation) \<in> set tools"
    by (simp add: tools_def)
  show ?thesis
    using h registry_execute_iff_no_execution [OF h]
    by (simp add: getWeatherInformation_def)
qed

section \<open>The schedule tool\<close>

text \<open>
  The closed examples below take a date by its time value in milliseconds and a delay as
  a whole number of seconds, and give the host's conversions by what a runtime in UTC
  prints for the values used.
\<close>

subsection \<open>A trigger of type no-schedule\<close>

text \<open>
  C2, as amended. For every invocation whose trigger has type "no-schedule" the resolver
  makes no call to the scheduling entry point; when an agent context is available it
  returns exactly the string "Not a valid schedule input".
\<close>

theorem no_schedule_with_agent:
  "type when = ''no-schedule'' \<Longrightarrow>
     snd (scheduleTask_execute date_toString number_toString store when description) = ([], [])
     \<and> (store \<noteq> None \<longrightarrow>
          fst (scheduleTask_execute date_toString number_toString store when description)
            = Inr ''Not a valid schedule input'')"
  by (auto simp: scheduleTask_execute_def split: option.splits)

theorem no_schedule_with_agent_witness:
  "snd (scheduleTask_execute (\<lambda>t::int. ''Wed Jan 01 2025 00:00:00 GMT+0000 (Coordinated Universal Time)'')
          (\<lambda>n::int. ''30'') (Some \<lparr>schedule = \<lambda>i a d. Returns Fulfilled\<rparr>)
          \<lparr>type = ''no-schedule'', date = None, delayInSeconds = None, cron = None\<rparr>
          ''feed the cat'') = ([], [])
   \<and> fst (scheduleTask_execute (\<lambda>t::int. ''Wed Jan 01 2025 00:00:00 GMT+0000 (Coordinated Universal Time)'')
          (\<lambda>n::int. ''30'') (Some \<lparr>schedule = \<lambda>i a d. Returns Fulfilled\<rparr>)
          \<lparr>type = ''no-schedule'', date = None, delayInSeconds = None, cron = None\<rparr>
          ''feed the cat'')
     = Inr ''Not a valid schedule input''"
  using no_schedule_with_agent [of
      "\<lparr>type = ''no-schedule'', date = None, delayInSeconds = None, cron = None\<rparr>"
      "\<lambda>t::int. ''Wed Jan 01 2025 00:00:00 GMT+0000 (Coordinated Universal Time)''"
      "\<lambda>n::int. ''30''"
      "Some \<lparr>schedule = \<lambda>i a d. Returns Fulfilled\<rparr>" "''feed the cat''"]
  by simp

text \<open>
  As first stated, for every invocation, the claim fails where the store holds no agent:
  the resolver throws before it looks at the trigger.
\<close>

theorem no_schedule_without_agent_counterexample:
  "scheduleTask_execute (\<lambda>t::int. ''Wed Jan 01 2025 00:00:00 GMT+0000 (Coordinated Universal Time)'')
     (\<lambda>n::int. ''30'') None
     \<lparr>type = ''no-schedule'', date = None, delayInSeconds = None, cron = None\<rparr> ''feed the cat''
   = (Inl (JsError ''No agent found''), [], [])
   \<and> fst (scheduleTask_execute (\<lambda>t::int. ''Wed Jan 01 2025 00:00:00 GMT+0000 (Coordinated Universal Time)'')
     (\<lambda>n::int. ''30'') None
     \<lparr>type = ''no-schedule'', date = None, delayInSeconds = None, cron = None\<rparr> ''feed the cat'')
   \<noteq> Inr ''Not a valid schedule input''"
  by (simp add: scheduleTask_execute_def)

subsection \<open>A trigger of type scheduled\<close>

text \<open>
  C3, as amended. For every invocation with trigger {type: "scheduled", date: d}, where d
  is the date object the schema hands over, and an agent context available, the resolver
  calls the scheduling entry point once, with trigger value d, action name "executeTask"
  and the description. When that call returns, the resolver's string is
  \<^verbatim>\<open>Task scheduled for type "scheduled" : \<close> followed by the string conversion of d: it
  embeds the trigger kind and the text \<^verbatim>\<open>Date.prototype.toString\<close> gives for d, not the
  text the date was written with; the action name goes to the scheduling call and the
  template adds no occurrence of it to the string.
\<close>

theorem scheduled_calls_and_reports:
  assumes "type when = ''scheduled''" and "date when = Some d"
  shows "fst (snd (scheduleTask_execute date_toString number_toString (Some ag) when description))
           = [ScheduleCall (Some (DateValue d)) ''executeTask'' description]
         \<and> (\<forall>p. schedule ag (Some (DateValue d)) ''executeTask'' description = Returns p \<longrightarrow>
              fst (scheduleTask_execute date_toString number_toString (Some ag) when description)
                = Inr (''Task scheduled for type \"scheduled\" : '' @ date_toString d)
              \<and> includes_str (''Task scheduled for type \"scheduled\" : '' @ date_toString d)
                   (date_toString d)
              \<and> includes_str (''Task scheduled for type \"scheduled\" : '' @ date_toString d)
                   ''scheduled''
              \<and> includes_str (''Task scheduled for type \"scheduled\" : '' @ date_toString d)
                   ''executeTask''
                 = includes_str (date_toString d) ''executeTask'')"
proof -
  let ?out = "''Task scheduled for type \"scheduled\" : '' @ date_toString d"
  have i: "schedule_input when = Inr (Some (DateValue d))"
    using assms by (simp add: schedule_input_def)
  have n: "type when \<noteq> ''no-schedule''"
    using assms by simp
  have a: "includes_str ?out (date_toString d)"
    by (rule includes_str_append)
  have b: "includes_str ?out ''scheduled''"
    by simp
  have c: "includes_str ?out ''executeTask'' = includes_str (date_toString d) ''executeTask''"
    by simp
  have calls: "fst (snd (scheduleTask_execute date_toString number_toString (Some ag) when
                 description))
               = [ScheduleCall (Some (DateValue d)) ''executeTask'' description]"
    using i n by (simp add: scheduleTask_execute_def split: call_outcome.splits)
  have out: "fst (scheduleTask_execute date_toString number_toString (Some ag) when description)
               = Inr ?out"
    if "schedule ag (Some (DateValue d)) ''executeTask'' description = Returns p" for p
    using that i n assms by (simp add: scheduleTask_execute_def)
  show ?thesis
    using calls out a b c by blast
qed

theorem scheduled_calls_and_reports_witness:
  "fst (scheduleTask_execute
          (\<lambda>t::int. ''Wed Jan 01 2025 00:00:00 GMT+0000 (Coordinated Universal Time)'')
          (\<lambda>n::int. ''30'') (Some \<lparr>schedule = \<lambda>i a d. Returns Fulfilled\<rparr>)
          \<lparr>type = ''scheduled'', date = Some 1735689600000, delayInSeconds = None, cron = None\<rparr>
          ''feed the cat'')
     = Inr (''Task scheduled for type \"scheduled\" : ''
            @ ''Wed Jan 01 2025 00:00:00 GMT+0000 (Coordinated Universal Time)'')
   \<and> fst (snd (scheduleTask_execute
          (\<lambda>t::int. ''Wed Jan 01 2025 00:00:00 GMT+0000 (Coordinated Universal Time)'')
          (\<lambda>n::int. ''30'') (Some \<lparr>schedule = \<lambda>i a d. Returns Fulfilled\<rparr>)
          \<lparr>type = ''scheduled'', date = Some 1735689600000, delayInSeconds = None, cron = None\<rparr>
          ''feed the cat''))
     = [ScheduleCall (Some (DateValue 1735689600000)) ''executeTask'' ''feed the cat'']"
proof -
  let ?w = "\<lparr>type = ''scheduled'', date = Some (1735689600000::int),
             delayInSeconds = (None :: int option), cron = None\<rparr>"
  let ?ag = "\<lparr>schedule = \<lambda>i a d. Returns Fulfilled\<rparr> :: (int, int) agent"
  have t: "type ?w = ''scheduled''" by simp
  have d: "date ?w = Some 1735689600000" by simp
  have r: "schedule ?ag (Some (DateValue 1735689600000)) ''executeTask'' ''feed the cat''
             = Returns Fulfilled"
    by simp
  from scheduled_calls_and_reports [OF t d,
      of "\<lambda>t. ''Wed Jan 01 2025 00:00:00 GMT+0000 (Coordinated Universal Time)''"
         "\<lambda>n. ''30''" ?ag "''feed the cat''"] r
  show ?thesis
    by (simp del: includes_str.simps)
qed

text \<open>
  As first stated the claim has the returned string embed the literal date and the action
  name. With an agent whose scheduling call returns, the string for the date written
  2025-01-01T00:00:00Z holds neither that text nor an occurrence of "executeTask".
\<close>

theorem scheduled_result_omits_action_counterexample:
  "fst (scheduleTask_execute
          (\<lambda>t::int. ''Wed Jan 01 2025 00:00:00 GMT+0000 (Coordinated Universal Time)'')
          (\<lambda>n::int. ''30'') (Some \<lparr>schedule = \<lambda>i a d. Returns Fulfilled\<rparr>)
          \<lparr>type = ''scheduled'', date = Some 1735689600000, delayInSeconds = None, cron = None\<rparr>
          ''feed the cat'')
    = Inr ''Task scheduled for type \"scheduled\" : Wed Jan 01 2025 00:00:00 GMT+0000 (Coordinated Universal Time)''
   \<and> \<not> includes_str
         ''Task scheduled for type \"scheduled\" : Wed Jan 01 2025 00:00:00 GMT+0000 (Coordinated Universal Time)''
         ''executeTask''
   \<and> \<not> includes_str
         ''Task scheduled for type \"scheduled\" : Wed Jan 01 2025 00:00:00 GMT+0000 (Coordinated Universal Time)''
         ''2025-01-01T00:00:00Z''"
  by (simp add: scheduleTask_execute_def schedule_input_def)

subsection \<open>A scheduling call that fails\<close>

text \<open>
  C4. The claim has every failure of the agent context's scheduling call caught and
  returned as a string describing the error. The resolver does so only for a call that
  throws in the resolver's own turn. The scheduling call is not awaited, so where the
  entry point is asynchronous and its promise rejects, the \<^verbatim>\<open>catch\<close> block never runs:
  for a cron trigger the resolver returns the success string and the rejected promise is
  left without a handler.
\<close>

theorem schedule_rejection_escapes_catch:
  "scheduleTask_execute
     (\<lambda>t::int. ''Wed Jan 01 2025 00:00:00 GMT+0000 (Coordinated Universal Time)'')
     (\<lambda>n::int. ''30'') (Some \<lparr>schedule = \<lambda>i a d. Returns (Rejected (JsError ''storage full''))\<rparr>)
     \<lparr>type = ''cron'', date = None, delayInSeconds = None, cron = Some ''0 * * * *''\<rparr>
     ''feed the cat''
   = (Inr ''Task scheduled for type \"cron\" : 0 * * * *'',
      [ScheduleCall (Some (StringValue ''0 * * * *'')) ''executeTask'' ''feed the cat''],
      [Rejected (JsError ''storage full'')])
   \<and> scheduleTask_execute
     (\<lambda>t::int. ''Wed Jan 01 2025 00:00:00 GMT+0000 (Coordinated Universal Time)'')
     (\<lambda>n::int. ''30'') (Some \<lparr>schedule = \<lambda>i a d. Throws (JsError ''storage full'')\<rparr>)
     \<lparr>type = ''cron'', date = None, delayInSeconds = None, cron = Some ''0 * * * *''\<rparr>
     ''feed the cat''
   = (Inr ''Error scheduling task: Error: storage full'',
      [ScheduleCall (Some (StringValue ''0 * * * *'')) ''executeTask'' ''feed the cat''],
      [])"
  by (simp add: scheduleTask_execute_def schedule_input_def)

subsection \<open>No agent context\<close>

text \<open>
  C5. When no agent context is available, the schedule tool raises: the promise is
  rejected with the error \<^verbatim>\<open>Error("No agent found")\<close>, no result is returned and the
  scheduling entry point is never called, whatever the trigger.
\<close>

theorem scheduleTask_no_agent_raises:
  "scheduleTask_execute date_toString number_toString None when description
     = (Inl (JsError ''No agent found''), [], [])"
  by (simp add: scheduleTask_execute_def)

subsection \<open>An unrecognized trigger tag\<close>

text \<open>
  C6, as amended. For every invocation whose trigger tag is none of "no-schedule",
  "scheduled", "delayed" and "cron": with an agent context available the resolver fails
  with \<^verbatim>\<open>Error("not a valid schedule input")\<close>; with or without one it fails, returns no
  success result and does not call the scheduling entry point.
\<close>

theorem unrecognized_tag_raises:
  assumes "type when \<notin> {''no-schedule'', ''scheduled'', ''delayed'', ''cron''}"
  shows "scheduleTask_execute date_toString number_toString (Some ag) when description
           = (Inl (JsError ''not a valid schedule input''), [], [])
         \<and> (\<exists>e. scheduleTask_execute date_toString number_toString store when description
                  = (Inl e, [], []))"
proof -
  have i: "schedule_input when = Inl (JsError ''not a valid schedule input'')"
    using assms by (simp add: schedule_input_def throwError_def)
  have n: "type when \<noteq> ''no-schedule''"
    using assms by simp
  show ?thesis
    using i n by (cases store) (simp_all add: scheduleTask_execute_def)
qed

theorem unrecognized_tag_raises_witness:
  "scheduleTask_execute
     (\<lambda>t::int. ''Wed Jan 01 2025 00:00:00 GMT+0000 (Coordinated Universal Time)'')
     (\<lambda>n::int. ''30'') (Some \<lparr>schedule = \<lambda>i a d. Returns Fulfilled\<rparr>)
     \<lparr>type = ''weekly'', date = None, delayInSeconds = None, cron = None\<rparr> ''feed the cat''
   = (Inl (JsError ''not a valid schedule input''), [], [])"
proof -
  let ?w = "\<lparr>type = ''weekly'', date = (None :: int option),
             delayInSeconds = (None :: int option), cron = None\<rparr>"
  have h: "type ?w \<notin> {''no-schedule'', ''scheduled'', ''delayed'', ''cron''}"
    by simp
  from unrecognized_tag_raises [OF h,
      of "\<lambda>t. ''Wed Jan 01 2025 00:00:00 GMT+0000 (Coordinated Universal Time)''"
         "\<lambda>n. ''30''" "\<lparr>schedule = \<lambda>i a d. Returns Fulfilled\<rparr>" "''feed the cat''" None]
  show ?thesis by simp
qed

text \<open>
  As first stated, for every invocation, the claim fails where the store holds no agent:
  the error is then the one of the agent check, not the one of the default branch.
\<close>

theorem unrecognized_tag_without_agent_counterexample:
  "scheduleTask_execute
     (\<lambda>t::int. ''Wed Jan 01 2025 00:00:00 GMT+0000 (Coordinated Universal Time)'')
     (\<lambda>n::int. ''30'') None
     \<lparr>type = ''weekly'', date = None, delayInSeconds = None, cron = None\<rparr> ''feed the cat''
   = (Inl (JsError ''No agent found''), [], [])
   \<and> fst (scheduleTask_execute
     (\<lambda>t::int. ''Wed Jan 01 2025 00:00:00 GMT+0000 (Coordinated Universal Time)'')
     (\<lambda>n::int. ''30'') None
     \<lparr>type = ''weekly'', date = None, delayInSeconds = None, cron = None\<rparr> ''feed the cat'')
   \<noteq> Inl (JsError ''not a valid schedule input'')"
  by (simp add: scheduleTask_execute_def)

subsection \<open>The agent check comes first\<close>

text \<open>
  C9. The availability check of the agent context precedes the classification of the
  trigger: with no agent the tool throws for every invocation, whatever the trigger, also
  one of type "no-schedule"; and the informational result "Not a valid schedule input"
  is returned only when an agent context is present.
\<close>

theorem agent_check_precedes_classification:
  "scheduleTask_execute date_toString number_toString None when description
     = (Inl (JsError ''No agent found''), [], [])
   \<and> (fst (scheduleTask_execute date_toString number_toString store when' description')
         = Inr ''Not a valid schedule input''
        \<longrightarrow> store \<noteq> None)"
  by (cases store) (simp_all add: scheduleTask_execute_def)

theorem agent_check_precedes_classification_witness:
  "scheduleTask_execute
     (\<lambda>t::int. ''Wed Jan 01 2025 00:00:00 GMT+0000 (Coordinated Universal Time)'')
     (\<lambda>n::int. ''30'') None
     \<lparr>type = ''no-schedule'', date = None, delayInSeconds = None, cron = None\<rparr> ''feed the cat''
   = (Inl (JsError ''No agent found''), [], [])
   \<and> fst (scheduleTask_execute
     (\<lambda>t::int. ''Wed Jan 01 2025 00:00:00 GMT+0000 (Coordinated Universal Time)'')
     (\<lambda>n::int. ''30'') (Some \<lparr>schedule = \<lambda>i a d. Returns Fulfilled\<rparr>)
     \<lparr>type = ''no-schedule'', date = None, delayInSeconds = None, cron = None\<rparr> ''feed the cat'')
     = Inr ''Not a valid schedule input''
   \<and> Some \<lparr>schedule = \<lambda>(i :: (int, int) trigger_value option) a d. Returns Fulfilled\<rparr> \<noteq> None"
proof -
  let ?w = "\<lparr>type = ''no-schedule'', date = (None :: int option),
             delayInSeconds = (None :: int option), cron = None\<rparr>"
  let ?s = "Some \<lparr>schedule = \<lambda>i a d. Returns Fulfilled\<rparr> :: (int, int) agent option"
  let ?dts = "\<lambda>t::int. ''Wed Jan 01 2025 00:00:00 GMT+0000 (Coordinated Universal Time)''"
  let ?nts = "\<lambda>n::int. ''30''"
  have r: "fst (scheduleTask_execute ?dts ?nts ?s ?w ''feed the cat'')
             = Inr ''Not a valid schedule input''"
    by (simp add: scheduleTask_execute_def)
  from agent_check_precedes_classification
      [of ?dts ?nts ?w "''feed the cat''" ?s ?w "''feed the cat''"] r
  show ?thesis by simp
qed

section \<open>The domain-record tools\<close>

text \<open>
  C7. For each of the domain-record tools getUserPersonalData, getSchools, getClasses,
  getSubjects, getStudents, searchStudent and getStudent: if the GET request of the tool
  fails, the tool returns exactly the string "error" and raises nothing; if the request
  succeeds, the tool returns the response body serialized to a string.
\<close>

theorem domain_tools_never_raise:
  "((get c ''me'' AUTH_HEADER = Inl e \<longrightarrow> getUserPersonalData_execute c s = Inr ''error'')
    \<and> (get c ''me'' AUTH_HEADER = Inr d \<longrightarrow> getUserPersonalData_execute c s = Inr (s d)))
   \<and> ((get c ''schools?page=0&perPage=30'' AUTH_HEADER = Inl e \<longrightarrow>
          getSchools_execute c s = Inr ''error'')
    \<and> (get c ''schools?page=0&perPage=30'' AUTH_HEADER = Inr d \<longrightarrow>
          getSchools_execute c s = Inr (s d)))
   \<and> ((get c ''classes'' AUTH_HEADER = Inl e \<longrightarrow> getClasses_execute c s = Inr ''error'')
    \<and> (get c ''classes'' AUTH_HEADER = Inr d \<longrightarrow> getClasses_execute c s = Inr (s d)))
   \<and> ((get c ''subjects'' AUTH_HEADER = Inl e \<longrightarrow> getSubjects_execute c s = Inr ''error'')
    \<and> (get c ''subjects'' AUTH_HEADER = Inr d \<longrightarrow> getSubjects_execute c s = Inr (s d)))
   \<and> ((get c (getStudents_url schoolIds classIds) AUTH_HEADER = Inl e \<longrightarrow>
          getStudents_execute c s schoolIds classIds = Inr ''error'')
    \<and> (get c (getStudents_url schoolIds classIds) AUTH_HEADER = Inr d \<longrightarrow>
          getStudents_execute c s schoolIds classIds = Inr (s d)))
   \<and> (searchStudent_url enc name ids = Inr url \<longrightarrow>
         (get c url AUTH_HEADER = Inl e \<longrightarrow>
            searchStudent_execute c s enc name ids = Inr ''error'')
         \<and> (get c url AUTH_HEADER = Inr d \<longrightarrow>
            searchStudent_execute c s enc name ids = Inr (s d)))
   \<and> ((get c (''student/'' @ studentId) AUTH_HEADER = Inl e \<longrightarrow>
          getStudent_execute c s studentId = Inr ''error'')
    \<and> (get c (''student/'' @ studentId) AUTH_HEADER = Inr d \<longrightarrow>
          getStudent_execute c s studentId = Inr (s d)))"
  by (intro conjI getUserPersonalData_outcome getSchools_outcome getClasses_outcome
      getSubjects_outcome getStudents_outcome searchStudent_outcome getStudent_outcome)

text \<open>A client whose every request fails, and one whose every request answers \<open>[]\<close>.\<close>

theorem domain_tools_never_raise_witness:
  "(getUserPersonalData_execute \<lparr>get = \<lambda>u h. Inl (JsError ''Network Error'')\<rparr> (\<lambda>d. d)
      = Inr ''error''
    \<and> getSchools_execute \<lparr>get = \<lambda>u h. Inl (JsError ''Network Error'')\<rparr> (\<lambda>d. d)
      = Inr ''error''
    \<and> getClasses_execute \<lparr>get = \<lambda>u h. Inl (JsError ''Network Error'')\<rparr> (\<lambda>d. d)
      = Inr ''error''
    \<and> getSubjects_execute \<lparr>get = \<lambda>u h. Inl (JsError ''Network Error'')\<rparr> (\<lambda>d. d)
      = Inr ''error''
    \<and> getStudents_execute \<lparr>get = \<lambda>u h. Inl (JsError ''Network Error'')\<rparr> (\<lambda>d. d)
        (Some ''1,2'') None
      = Inr ''error''
    \<and> searchStudent_execute \<lparr>get = \<lambda>u h. Inl (JsError ''Network Error'')\<rparr> (\<lambda>d. d)
        (\<lambda>t. Inr t) ''ann'' None
      = Inr ''error''
    \<and> getStudent_execute \<lparr>get = \<lambda>u h. Inl (JsError ''Network Error'')\<rparr> (\<lambda>d. d) ''42''
      = Inr ''error'')
   \<and> (getUserPersonalData_execute \<lparr>get = \<lambda>u h. Inr ''[]''\<rparr> (\<lambda>d. d) = Inr ''[]''
    \<and> getSchools_execute \<lparr>get = \<lambda>u h. Inr ''[]''\<rparr> (\<lambda>d. d) = Inr ''[]''
    \<and> getClasses_execute \<lparr>get = \<lambda>u h. Inr ''[]''\<rparr> (\<lambda>d. d) = Inr ''[]''
    \<and> getSubjects_execute \<lparr>get = \<lambda>u h. Inr ''[]''\<rparr> (\<lambda>d. d) = Inr ''[]''
    \<and> getStudents_execute \<lparr>get = \<lambda>u h. Inr ''[]''\<rparr> (\<lambda>d. d) (Some ''1,2'') None = Inr ''[]''
    \<and> searchStudent_execute \<lparr>get = \<lambda>u h. Inr ''[]''\<rparr> (\<lambda>d. d) (\<lambda>t. Inr t) ''ann'' None
      = Inr ''[]''
    \<and> getStudent_execute \<lparr>get = \<lambda>u h. Inr ''[]''\<rparr> (\<lambda>d. d) ''42'' = Inr ''[]'')"
proof -
  let ?down = "\<lparr>get = \<lambda>u h. Inl (JsError ''Network Error'')\<rparr> :: string api_client"
  let ?up = "\<lparr>get = \<lambda>u h. Inr ''[]''\<rparr> :: string api_client"
  have u: "searchStudent_url (\<lambda>t. Inr t) ''ann'' None
             = Inr ''/students/typeahead?searchText=ann''"
    by (simp add: searchStudent_url_def)
  show ?thesis
    using u
      domain_tools_never_raise [where c = ?down and e = "JsError ''Network Error''"
        and s = "\<lambda>d. d" and d = "''[]''" and schoolIds = "Some ''1,2''" and classIds = None
        and enc = "\<lambda>t. Inr t" and name = "''ann''" and ids = None
        and url = "''/students/typeahead?searchText=ann''" and studentId = "''42''"]
      domain_tools_never_raise [where c = ?up and e = "JsError ''Network Error''"
        and s = "\<lambda>d. d" and d = "''[]''" and schoolIds = "Some ''1,2''" and classIds = None
        and enc = "\<lambda>t. Inr t" and name = "''ann''" and ids = None
        and url = "''/students/typeahead?searchText=ann''" and studentId = "''42''"]
    by simp
qed

section \<open>The request path of searchStudent\<close>

text \<open>
  C10, as amended. For every call to searchStudent in which schoolIds is provided and is
  not the empty string (and the name encodes), the request path is the searchText query
  followed by a second "?": \<^verbatim>\<open>?searchText=...?schoolIds=...\<close>. getStudents, given both
  of its filters non-empty, joins the second one with "&".
\<close>

theorem searchStudent_second_question_mark:
  assumes "encodeURIComponent name = Inr encoded" and "schoolIds \<noteq> []"
  shows "searchStudent_url encodeURIComponent name (Some schoolIds)
           = Inr (''/students/typeahead?searchText='' @ encoded @ ''?schoolIds='' @ schoolIds)
         \<and> (classIds \<noteq> [] \<longrightarrow>
              getStudents_url (Some schoolIds) (Some classIds)
                = ''active-students?schoolIds='' @ schoolIds @ ''&classIds='' @ classIds)"
  using assms by (simp add: searchStudent_url_def getStudents_url_def)

theorem searchStudent_second_question_mark_witness:
  "searchStudent_url (\<lambda>t. Inr t) ''ann'' (Some ''1,2'')
     = Inr ''/students/typeahead?searchText=ann?schoolIds=1,2''
   \<and> getStudents_url (Some ''1,2'') (Some ''7'') = ''active-students?schoolIds=1,2&classIds=7''"
  using searchStudent_second_question_mark
    [of "\<lambda>t. Inr t" "''ann''" "''ann''" "''1,2''" "''7''"]
  by simp

text \<open>
  As first stated, for every call in which schoolIds is provided, the claim fails at the
  empty string: it is provided and falsy, and nothing is appended.
\<close>

theorem searchStudent_empty_schoolIds_counterexample:
  "searchStudent_url (\<lambda>t. Inr t) ''ann'' (Some [])
     = Inr ''/students/typeahead?searchText=ann''
   \<and> searchStudent_url (\<lambda>t. Inr t) ''ann'' (Some [])
     \<noteq> Inr (''/students/typeahead?searchText=ann'' @ ''?schoolIds='' @ [])"
  by (simp add: searchStudent_url_def)

section \<open>Resolving a pending confirmation twice\<close>

text \<open>
  C8. For every pending confirmation id, in any state the gate reaches from its initial
  one: the first resolve call succeeds or fails as the decision and the executor have it,
  and every later resolve call on the same id, whatever the gate did in between, fails
  with \<open>AlreadyResolvedError\<close>.
\<close>

theorem second_resolve_is_rejected:
  assumes "slots (gate_run inline table history initial_gate) p = Some (Pending pc)"
  shows "fst (resolve table p d (gate_run inline table history initial_gate))
           = run_decision table pc d
         \<and> run_decision table pc d \<noteq> Inl AlreadyResolvedError
         \<and> fst (resolve table p d'
                 (gate_run inline table later
                    (snd (resolve table p d (gate_run inline table history initial_gate)))))
           = Inl AlreadyResolvedError"
proof -
  let ?st = "gate_run inline table history initial_gate"
  let ?st1 = "snd (resolve table p d ?st)"
  have inv: "ids_issued ?st"
    using initial_ids_issued by (rule gate_run_ids_issued)
  have inv1: "ids_issued ?st1"
    using inv by (rule resolve_ids_issued)
  have r1: "slots ?st1 p = Some Resolved"
    using resolve_pending [OF assms] by simp
  have "slots (gate_run inline table later ?st1) p = Some Resolved"
    using inv1 r1 by (rule gate_run_keeps_resolved)
  then have "fst (resolve table p d' (gate_run inline table later ?st1))
               = Inl AlreadyResolvedError"
    by (simp add: resolve_resolved)
  then show ?thesis
    using resolve_pending [OF assms] run_decision_not_already_resolved by simp
qed

text \<open>
  The weather tool deferred, approved, and approved again after another call was
  deferred and denied.
\<close>

theorem second_resolve_is_rejected_witness:
  "fst (resolve executions 0 Approve
         (gate_run Map.empty executions
            [Dispatch ''getWeatherInformation'' [(''city'', ''Lagos'')] 5] initial_gate))
     = Inr (ToolResult ''The weather in Lagos is sunny'')
   \<and> fst (resolve executions 0 Approve
           (gate_run Map.empty executions
              [Dispatch ''getWeatherInformation'' [(''city'', ''Accra'')] 9, Resolve 1 Deny]
              (snd (resolve executions 0 Approve
                 (gate_run Map.empty executions
                    [Dispatch ''getWeatherInformation'' [(''city'', ''Lagos'')] 5] initial_gate)))))
     = Inl AlreadyResolvedError"
proof -
  let ?pc = "\<lparr>toolName = ''getWeatherInformation'', validatedArguments = [(''city'', ''Lagos'')],
              createdAt = 5\<rparr>"
  have h: "slots (gate_run Map.empty executions
             [Dispatch ''getWeatherInformation'' [(''city'', ''Lagos'')] 5] initial_gate) 0
           = Some (Pending ?pc)"
    by (simp add: dispatch_def initial_gate_def)
  have r: "run_decision executions ?pc Approve = Inr (ToolResult ''The weather in Lagos is sunny'')"
    by (simp add: run_decision_def executions_def field_text_def)
  from second_resolve_is_rejected [OF h, of Approve Approve
      "[Dispatch ''getWeatherInformation'' [(''city'', ''Accra'')] 9, Resolve 1 Deny]"] r
  show ?thesis by simp
qed

end
